theory Spec2Isabelle
  imports Main
begin

text \<open>
  A model of \<open>Tool Integration/tools_demo.py\<close>: the four workflow nodes, the linear
  workflow that \<open>app.invoke\<close> runs, and the driver loop over the test queries.

  What the model fixes about the world outside the script:
  \<^item> the language model and the search provider are parameters; a call takes the state of
    the outside world and returns a new one together with either the exception raised or
    the value returned, so nothing is assumed about what they answer or whether the same
    call answers the same twice;
  \<^item> an exception is an instance of a subclass of \<open>Exception\<close>;
  \<^item> \<open>print\<close> appends its argument to the console and does not fail;
  \<^item> the values of a search result are texts, as the search provider documents.
\<close>

section \<open>Python values used by \<open>tools_demo.py\<close>\<close>

text \<open>
  A Python \<open>str\<close> is a sequence of Unicode code points, so it is modelled as a list of
  code points (natural numbers); \<open>len\<close> and slicing then count what Python counts.
  \<open>lit\<close> turns an ASCII literal of the source into such a string; the non-ASCII
  characters of the source (arrows, emoji) are written as their code points.
\<close>

type_synonym str = "nat list"

definition lit :: "string \<Rightarrow> str" where
  "lit s = map of_char s"

text \<open>
  \<open>str.strip()\<close> without argument removes leading and trailing whitespace, where
  whitespace is what \<open>str.isspace\<close> accepts: the code points below.
\<close>

definition py_isspace :: "nat \<Rightarrow> bool" where
  "py_isspace c =
     (c \<in> set [0x09, 0x0A, 0x0B, 0x0C, 0x0D, 0x1C, 0x1D, 0x1E, 0x1F, 0x20, 0x85, 0xA0, 0x1680]
      \<or> (0x2000 \<le> c \<and> c \<le> 0x200A)
      \<or> c \<in> set [0x2028, 0x2029, 0x202F, 0x205F, 0x3000])"

definition strip :: "str \<Rightarrow> str" where
  "strip s = rev (dropWhile py_isspace (rev (dropWhile py_isspace s)))"

text \<open>\<open>sep.join(xs)\<close>.\<close>

fun join :: "str \<Rightarrow> str list \<Rightarrow> str" where
  "join sep [] = []"
| "join sep [x] = x"
| "join sep (x # y # ys) = x @ sep @ join sep (y # ys)"

text \<open>\<open>str(n)\<close> and \<open>f"{n}"\<close> for a non-negative \<open>int\<close>: the decimal digits.\<close>

fun str_nat :: "nat \<Rightarrow> str" where
  "str_nat n = (if n < 10 then [48 + n] else str_nat (n div 10) @ [48 + n mod 10])"

declare str_nat.simps [simp del]

text \<open>\<open>a or b\<close> on strings: \<open>a\<close> when it is truthy (non-empty), else \<open>b\<close>.\<close>

definition py_or :: "str \<Rightarrow> str \<Rightarrow> str" where
  "py_or a b = (if a \<noteq> [] then a else b)"

text \<open>
  A search result is a \<open>dict\<close> from field names to texts; \<open>d.get(k, default)\<close> is
  \<open>dict_get\<close>.
\<close>

type_synonym result = "str \<rightharpoonup> str"

definition dict_get :: "result \<Rightarrow> str \<Rightarrow> str \<Rightarrow> str" where
  "dict_get d k dflt = (case d k of None \<Rightarrow> dflt | Some v \<Rightarrow> v)"

text \<open>
  A raised exception (an instance of a subclass of \<open>Exception\<close>, which is what both
  \<open>except Exception\<close> clauses of the source catch): its class name and the text that
  \<open>str(e)\<close> and \<open>f"{e}"\<close> give.
\<close>

datatype exn = Raised (exn_class: string) (exn_str: str)

section \<open>The run record and the outside world\<close>

record ToolState =
  query :: str
  enhanced_query :: str
  search_results :: "str list"
  summary :: str

text \<open>
  A node returns a \<open>dict\<close> holding the keys it writes. The workflow engine merges it into
  the record: a key that is present overwrites the field, an absent key leaves it alone.
\<close>

record ToolUpdate =
  upd_query :: "str option"
  upd_enhanced_query :: "str option"
  upd_search_results :: "str list option"
  upd_summary :: "str option"

definition no_update :: ToolUpdate where
  "no_update = \<lparr>upd_query = None, upd_enhanced_query = None,
                 upd_search_results = None, upd_summary = None\<rparr>"

definition whole_state :: "ToolState \<Rightarrow> ToolUpdate" where
  "whole_state state = \<lparr>upd_query = Some (query state),
                          upd_enhanced_query = Some (enhanced_query state),
                          upd_search_results = Some (search_results state),
                          upd_summary = Some (summary state)\<rparr>"

definition merge :: "ToolState \<Rightarrow> ToolUpdate \<Rightarrow> ToolState" where
  "merge state u =
     \<lparr>query = (case upd_query u of None \<Rightarrow> query state | Some v \<Rightarrow> v),
      enhanced_query = (case upd_enhanced_query u of None \<Rightarrow> enhanced_query state | Some v \<Rightarrow> v),
      search_results = (case upd_search_results u of None \<Rightarrow> search_results state | Some v \<Rightarrow> v),
      summary = (case upd_summary u of None \<Rightarrow> summary state | Some v \<Rightarrow> v)\<rparr>"

text \<open>
  The world outside the script: the state \<open>'w\<close> of the external services (language
  model, search provider), which every call may change, and the console, one entry per
  \<open>print\<close> call.
\<close>

record 'w io =
  world :: 'w
  console :: "str list"

definition py_print :: "str \<Rightarrow> 'w io \<Rightarrow> 'w io" where
  "py_print s io = io\<lparr>console := console io @ [s]\<rparr>"

text \<open>
  \<open>llm.invoke(prompt).content\<close> either raises or returns the response text;
  \<open>list(ddgs.text(query, max_results=n))\<close> inside \<open>with DDGS() as ddgs\<close> either raises
  or returns the list of results.
\<close>

type_synonym 'w llm = "str \<Rightarrow> 'w \<Rightarrow> (exn + str) \<times> 'w"
type_synonym 'w ddgs = "str \<Rightarrow> nat \<Rightarrow> 'w \<Rightarrow> (exn + result list) \<times> 'w"

section \<open>The four nodes\<close>

definition enhance_prompt :: "ToolState \<Rightarrow> str" where
  "enhance_prompt state =
     lit ''Enhance this search query to get better results. '' @ [10] @
     lit ''    Make it more specific and add relevant keywords.'' @ [10] @
     lit ''    Original query: '' @ query state @ [10] @
     lit ''    Enhanced query (return only the query, no explanation):''"

definition enhance_query_node ::
  "'w llm \<Rightarrow> ToolState \<Rightarrow> 'w io \<Rightarrow> (exn + ToolUpdate) \<times> 'w io" where
  "enhance_query_node llm state io0 =
     (let io1 = py_print ([10, 0x1F3AF] @ lit '' Enhance Query Node'') io0;
          io2 = py_print (lit ''   Original query: '' @ [39] @ query state @ [39]) io1;
          prompt = enhance_prompt state
      in case llm prompt (world io2) of
           (Inl e, w) \<Rightarrow> (Inl e, io2\<lparr>world := w\<rparr>)
         | (Inr content, w) \<Rightarrow>
             (let enhanced = strip content;
                  io3 = py_print (lit ''   Enhanced query: '' @ [39] @ enhanced @ [39])
                          (io2\<lparr>world := w\<rparr>)
              in (Inr (no_update\<lparr>upd_enhanced_query := Some enhanced\<rparr>), io3)))"

text \<open>The loop \<open>for i, result in enumerate(results, 1)\<close>, from index \<open>i\<close> on.\<close>

fun search_loop :: "nat \<Rightarrow> result list \<Rightarrow> str list \<Rightarrow> 'w io \<Rightarrow> str list \<times> 'w io" where
  "search_loop i [] found io = (found, io)"
| "search_loop i (r # rest) found io =
     (let title = dict_get r (lit ''title'') (lit ''No title'');
          body = dict_get r (lit ''body'') (lit ''No description'');
          found' = found @ [str_nat i @ lit ''. '' @ title @ lit '': '' @ body];
          io' = py_print (lit ''   '' @ [0x2192] @ lit '' Found result '' @ str_nat i @
                          lit '': '' @ take 50 title @ lit ''...'') io
      in search_loop (Suc i) rest found' io')"

definition search_tool_node ::
  "'w ddgs \<Rightarrow> ToolState \<Rightarrow> 'w io \<Rightarrow> (exn + ToolUpdate) \<times> 'w io" where
  "search_tool_node ddgs state io0 =
     (let io1 = py_print ([10, 0x1F986] @ lit '' Search Tool Node (DuckDuckGo)'') io0;
          q = py_or (enhanced_query state) (query state);
          io2 = py_print (lit ''   Searching for: '' @ [39] @ q @ [39]) io1
      in case ddgs q 3 (world io2) of
           (Inr results, w) \<Rightarrow>
             (case search_loop 1 results [] (io2\<lparr>world := w\<rparr>) of
                (found, io3) \<Rightarrow>
                  if found = []
                  then (Inr (no_update\<lparr>upd_search_results :=
                               Some [lit ''No results found. Try a different query.'']\<rparr>),
                        py_print (lit ''   '' @ [0x2192] @ lit '' No results found'') io3)
                  else (Inr (no_update\<lparr>upd_search_results := Some found\<rparr>), io3))
         | (Inl e, w) \<Rightarrow>
             (let io3 = py_print (lit ''   '' @ [0x26A0, 0xFE0F] @ lit '' Search error: '' @
                                  exn_str e) (io2\<lparr>world := w\<rparr>)
              in (Inr (no_update\<lparr>upd_search_results :=
                         Some [lit ''Search error: '' @ exn_str e @
                               lit ''. Using fallback data.'']\<rparr>), io3)))"

definition summarize_prompt :: "ToolState \<Rightarrow> str" where
  "summarize_prompt state =
     lit ''Summarize these search results for the query '' @ [39] @ query state @ [39] @
     lit '':'' @ [10, 10] @
     join [10] (search_results state) @ [10, 10] @
     lit ''Provide a concise, helpful summary:''"

definition summarize_node ::
  "'w llm \<Rightarrow> ToolState \<Rightarrow> 'w io \<Rightarrow> (exn + ToolUpdate) \<times> 'w io" where
  "summarize_node llm state io0 =
     (let io1 = py_print ([10, 0x1F4DD] @ lit '' Summarize Node'') io0;
          prompt = summarize_prompt state
      in case llm prompt (world io1) of
           (Inl e, w) \<Rightarrow> (Inl e, io1\<lparr>world := w\<rparr>)
         | (Inr content, w) \<Rightarrow>
             (let io2 = py_print (lit ''   '' @ [0x2192] @ lit '' Generated summary ('' @
                                  str_nat (length content) @ lit '' chars)'')
                          (io1\<lparr>world := w\<rparr>)
              in (Inr (no_update\<lparr>upd_summary := Some content\<rparr>), io2)))"

definition format_output :: "ToolState \<Rightarrow> str" where
  "format_output state =
     [10] @ replicate 50 61 @ [10] @
     [0x1F50D] @ lit '' SEARCH RESULTS'' @ [10] @
     replicate 50 61 @ [10] @
     lit ''Query: '' @ query state @ [10] @
     lit ''Enhanced: '' @ enhanced_query state @ [10] @
     [10] @
     lit ''Results Found: '' @ str_nat (length (search_results state)) @ [10] @
     [10] @
     lit ''Summary:'' @ [10] @
     summary state @ [10] @
     replicate 50 61 @ [10]"

definition format_output_node :: "ToolState \<Rightarrow> 'w io \<Rightarrow> (exn + ToolUpdate) \<times> 'w io" where
  "format_output_node state io0 =
     (let io1 = py_print ([10, 0x1F4E4] @ lit '' Format Output Node'') io0;
          io2 = py_print (format_output state) io1
      in (Inr (whole_state state), io2))"

section \<open>The workflow and the driver\<close>

text \<open>
  The workflow engine runs a node on the current record and merges the update the node
  returns into it; an exception raised by the node is passed on.
\<close>

definition run_node ::
  "(ToolState \<Rightarrow> 'w io \<Rightarrow> (exn + ToolUpdate) \<times> 'w io) \<Rightarrow>
   ToolState \<Rightarrow> 'w io \<Rightarrow> (exn + ToolState) \<times> 'w io" where
  "run_node node state io =
     (case node state io of
        (Inl e, io') \<Rightarrow> (Inl e, io')
      | (Inr u, io') \<Rightarrow> (Inr (merge state u), io'))"

text \<open>
  The compiled graph is the chain START, enhance\_query, search\_tool, summarize, format,
  END: each node runs on the record left by the node before it, and an exception raised by
  a node leaves \<open>app.invoke\<close>.
\<close>

definition app_invoke ::
  "'w llm \<Rightarrow> 'w ddgs \<Rightarrow> ToolState \<Rightarrow> 'w io \<Rightarrow> (exn + ToolState) \<times> 'w io" where
  "app_invoke llm ddgs state0 io0 =
     (case run_node (enhance_query_node llm) state0 io0 of
        (Inl e, io1) \<Rightarrow> (Inl e, io1)
      | (Inr state1, io1) \<Rightarrow>
          (case run_node (search_tool_node ddgs) state1 io1 of
             (Inl e, io2) \<Rightarrow> (Inl e, io2)
           | (Inr state2, io2) \<Rightarrow>
               (case run_node (summarize_node llm) state2 io2 of
                  (Inl e, io3) \<Rightarrow> (Inl e, io3)
                | (Inr state3, io3) \<Rightarrow> run_node format_output_node state3 io3)))"

definition test_queries :: "str list" where
  "test_queries =
     [lit ''What is LangGraph used for?'',
      lit ''How to build AI agents?'',
      lit ''DuckDuckGo search API'']"

definition initial_state :: "str \<Rightarrow> ToolState" where
  "initial_state q = \<lparr>query = q, enhanced_query = [], search_results = [], summary = []\<rparr>"

definition testing_line :: "str \<Rightarrow> str" where
  "testing_line q = [10, 0x1F50E] @ lit '' Testing: '' @ [39] @ q @ [39]"

definition completed_line :: str where
  "completed_line = [0x2705] @ lit '' Search completed successfully''"

definition error_line :: "exn \<Rightarrow> str" where
  "error_line e = [0x274C] @ lit '' Error during search: '' @ exn_str e"

text \<open>The loop \<open>for query in test_queries\<close>, over the queries still to run.\<close>

fun run_tests :: "'w llm \<Rightarrow> 'w ddgs \<Rightarrow> str list \<Rightarrow> 'w io \<Rightarrow> 'w io" where
  "run_tests llm ddgs [] io = io"
| "run_tests llm ddgs (q # qs) io =
     (let io1 = py_print (testing_line q) io;
          io2 = py_print (replicate 40 45) io1
      in case app_invoke llm ddgs (initial_state q) io2 of
           (Inr result, io3) \<Rightarrow> run_tests llm ddgs qs (py_print completed_line io3)
         | (Inl e, io3) \<Rightarrow> run_tests llm ddgs qs (py_print (error_line e) io3))"

section \<open>Observing a run\<close>

text \<open>
  A search service wrapped so that the world also records every call it receives: the
  query string and the result limit.
\<close>

definition logged :: "'w ddgs \<Rightarrow> ('w \<times> (str \<times> nat) list) ddgs" where
  "logged ddgs q n wl =
     (case ddgs q n (fst wl) of (r, w') \<Rightarrow> (r, (w', snd wl @ [(q, n)])))"

text \<open>The same for the language model: the world also records every prompt it receives.\<close>

definition logged_llm :: "'w llm \<Rightarrow> ('w \<times> str list) llm" where
  "logged_llm llm prompt wl =
     (case llm prompt (fst wl) of (r, w') \<Rightarrow> (r, (w', snd wl @ [prompt])))"

text \<open>
  The console lines of the driver: the line that starts a query's run begins with a
  newline and the magnifying-glass sign of \<open>testing_line\<close>; the line that ends it begins
  with the check mark of \<open>completed_line\<close> or the cross of \<open>error_line\<close>.
\<close>

definition is_testing_line :: "str \<Rightarrow> bool" where
  "is_testing_line s = (take 2 s = [10, 0x1F50E])"

definition is_outcome_line :: "str \<Rightarrow> bool" where
  "is_outcome_line s = (take 1 s = [0x2705] \<or> take 1 s = [0x274C])"

definition is_driver_line :: "str \<Rightarrow> bool" where
  "is_driver_line s = (is_testing_line s \<or> is_outcome_line s)"

section \<open>Example services\<close>

text \<open>Stand-ins for the external services, used to run the model on concrete inputs.\<close>

definition ddgs_two :: "'w ddgs" where
  "ddgs_two q n w =
     (Inr [[lit ''title'' \<mapsto> lit ''A'', lit ''body'' \<mapsto> lit ''B''],
           [lit ''title'' \<mapsto> lit ''C'', lit ''body'' \<mapsto> lit ''D'']], w)"

definition ddgs_partial :: "'w ddgs" where
  "ddgs_partial q n w =
     (Inr [[lit ''title'' \<mapsto> lit ''A''], [lit ''body'' \<mapsto> lit ''D''], Map.empty], w)"

definition ddgs_none :: "'w ddgs" where
  "ddgs_none q n w = (Inr [], w)"

definition ddgs_timeout :: "'w ddgs" where
  "ddgs_timeout q n w = (Inl (Raised ''ConnectionError'' (lit ''timeout'')), w)"

definition llm_const :: "str \<Rightarrow> 'w llm" where
  "llm_const r p w = (Inr r, w)"

text \<open>A language model that plays back a script: each call consumes the next entry.\<close>

definition llm_scripted :: "((exn + str) list) llm" where
  "llm_scripted p w =
     (case w of
        [] \<Rightarrow> (Inl (Raised ''RuntimeError'' (lit ''script exhausted'')), [])
      | r # rest \<Rightarrow> (r, rest))"

section \<open>What each node does to the record and to the world\<close>

lemma world_py_print [simp]: "world (py_print s io) = world io"
  by (simp add: py_print_def)

lemma console_py_print [simp]: "console (py_print s io) = console io @ [s]"
  by (simp add: py_print_def)

lemma merge_whole_state: "merge state (whole_state state) = state"
  by (simp add: merge_def whole_state_def)

lemma merge_enhanced:
  "merge state (no_update\<lparr>upd_enhanced_query := Some v\<rparr>) = state\<lparr>enhanced_query := v\<rparr>"
  by (simp add: merge_def no_update_def)

lemma merge_results:
  "merge state (no_update\<lparr>upd_search_results := Some v\<rparr>) = state\<lparr>search_results := v\<rparr>"
  by (simp add: merge_def no_update_def)

lemma merge_summary:
  "merge state (no_update\<lparr>upd_summary := Some v\<rparr>) = state\<lparr>summary := v\<rparr>"
  by (simp add: merge_def no_update_def)

lemma search_loop_found:
  "fst (search_loop i rs found io) =
     found @ map (\<lambda>k. str_nat (i + k) @ lit ''. '' @
                        dict_get (rs ! k) (lit ''title'') (lit ''No title'') @ lit '': '' @
                        dict_get (rs ! k) (lit ''body'') (lit ''No description''))
               [0..<length rs]"
proof (induction rs arbitrary: i found io)
  case Nil
  then show ?case by simp
next
  case (Cons r rs)
  show ?case
    by (simp add: Let_def Cons.IH upt_conv_Cons map_Suc_upt [symmetric] o_def del: upt_Suc)
qed

lemma search_loop_world: "world (snd (search_loop i rs found io)) = world io"
  by (induction rs arbitrary: i found io) (simp_all add: Let_def)

lemma run_enhance_fst:
  "fst (run_node (enhance_query_node llm) state io) =
     (case fst (llm (enhance_prompt state) (world io)) of
        Inl e \<Rightarrow> Inl e
      | Inr c \<Rightarrow> Inr (state\<lparr>enhanced_query := strip c\<rparr>))"
  by (simp add: run_node_def enhance_query_node_def Let_def merge_enhanced
           split: prod.splits sum.splits)

lemma run_enhance_world:
  "world (snd (run_node (enhance_query_node llm) state io)) =
     snd (llm (enhance_prompt state) (world io))"
  by (simp add: run_node_def enhance_query_node_def Let_def split: prod.splits sum.splits)

lemma run_search_fst_error:
  assumes "fst (ddgs (py_or (enhanced_query state) (query state)) 3 (world io)) = Inl e"
  shows "fst (run_node (search_tool_node ddgs) state io) =
           Inr (state\<lparr>search_results :=
                  [lit ''Search error: '' @ exn_str e @ lit ''. Using fallback data.'']\<rparr>)"
  using assms
  by (auto simp: run_node_def search_tool_node_def Let_def merge_results
           split: prod.splits sum.splits)

lemma run_search_fst_results:
  assumes "fst (ddgs (py_or (enhanced_query state) (query state)) 3 (world io)) = Inr rs"
  shows "fst (run_node (search_tool_node ddgs) state io) =
           Inr (state\<lparr>search_results :=
                  (if rs = [] then [lit ''No results found. Try a different query.'']
                   else map (\<lambda>k. str_nat (Suc k) @ lit ''. '' @
                                  dict_get (rs ! k) (lit ''title'') (lit ''No title'') @ lit '': '' @
                                  dict_get (rs ! k) (lit ''body'') (lit ''No description''))
                          [0..<length rs])\<rparr>)"
proof -
  let ?io2 = "py_print (lit ''   Searching for: '' @ [39] @
                         py_or (enhanced_query state) (query state) @ [39])
                (py_print ([10, 0x1F986] @ lit '' Search Tool Node (DuckDuckGo)'') io)"
  let ?call = "ddgs (py_or (enhanced_query state) (query state)) 3 (world io)"
  let ?fmt = "\<lambda>k. str_nat (Suc k) @ lit ''. '' @
                     dict_get (rs ! k) (lit ''title'') (lit ''No title'') @ lit '': '' @
                     dict_get (rs ! k) (lit ''body'') (lit ''No description'')"
  have call: "?call = (Inr rs, snd ?call)"
    using assms by (simp add: prod_eq_iff)
  let ?loop = "search_loop (Suc 0) rs [] (?io2\<lparr>world := snd ?call\<rparr>)"
  have found: "fst ?loop = map ?fmt [0..<length rs]"
    by (simp add: search_loop_found)
  have loop: "?loop = (map ?fmt [0..<length rs], snd ?loop)"
    using found by (simp add: prod_eq_iff)
  have node: "search_tool_node ddgs state io =
                (case ?loop of
                   (found, io3) \<Rightarrow>
                     if found = []
                     then (Inr (no_update\<lparr>upd_search_results :=
                                  Some [lit ''No results found. Try a different query.'']\<rparr>),
                           py_print (lit ''   '' @ [0x2192] @ lit '' No results found'') io3)
                     else (Inr (no_update\<lparr>upd_search_results := Some found\<rparr>), io3))"
    unfolding search_tool_node_def Let_def
    by (subst world_py_print, subst world_py_print, subst call) simp
  show ?thesis
    unfolding run_node_def node
    by (subst loop) (simp add: merge_results)
qed

lemma run_search_world:
  "world (snd (run_node (search_tool_node ddgs) state io)) =
     snd (ddgs (py_or (enhanced_query state) (query state)) 3 (world io))"
proof -
  have "world io3 = world io'" if "search_loop (Suc 0) rs [] io' = (found, io3)"
    for rs found and io' io3 :: "'a io"
    using search_loop_world [of "Suc 0" rs "[]" io'] that by simp
  then show ?thesis
    by (auto simp: run_node_def search_tool_node_def Let_def split: prod.splits sum.splits)
qed

lemma run_summarize_fst:
  "fst (run_node (summarize_node llm) state io) =
     (case fst (llm (summarize_prompt state) (world io)) of
        Inl e \<Rightarrow> Inl e
      | Inr c \<Rightarrow> Inr (state\<lparr>summary := c\<rparr>))"
  by (simp add: run_node_def summarize_node_def Let_def merge_summary
           split: prod.splits sum.splits)

lemma run_summarize_world:
  "world (snd (run_node (summarize_node llm) state io)) =
     snd (llm (summarize_prompt state) (world io))"
  by (simp add: run_node_def summarize_node_def Let_def split: prod.splits sum.splits)

lemma run_format:
  "run_node format_output_node state io =
     (Inr state,
      io\<lparr>console := console io @
                      [[10, 0x1F4E4] @ lit '' Format Output Node'', format_output state]\<rparr>)"
  by (simp add: run_node_def format_output_node_def Let_def py_print_def merge_whole_state)

section \<open>The search stage\<close>

text \<open>
  Claim C3. If the search service returns zero results (and does not raise), the search
  stage sets \<open>search_results\<close> to exactly the one-element list
  \<open>["No results found. Try a different query."]\<close>.
\<close>

theorem no_results_placeholder:
  assumes "ddgs (py_or (enhanced_query state) (query state)) 3 (world io) = (Inr [], w)"
  shows "fst (run_node (search_tool_node ddgs) state io) =
           Inr (state\<lparr>search_results := [lit ''No results found. Try a different query.'']\<rparr>)"
  using run_search_fst_results [of ddgs state io "[]"] assms by simp

theorem no_results_placeholder_witness:
  "ddgs_none (py_or (enhanced_query (initial_state (lit ''test''))) (query (initial_state (lit ''test''))))
     3 (world \<lparr>world = (), console = []\<rparr>) = (Inr [], ()) \<and>
   fst (run_node (search_tool_node ddgs_none) (initial_state (lit ''test''))
          \<lparr>world = (), console = []\<rparr>) =
     Inr \<lparr>query = lit ''test'', enhanced_query = [],
          search_results = [lit ''No results found. Try a different query.''], summary = []\<rparr>"
proof -
  have call: "ddgs_none (py_or (enhanced_query (initial_state (lit ''test'')))
                               (query (initial_state (lit ''test''))))
                3 (world \<lparr>world = (), console = []\<rparr>) = (Inr [], ())"
    by (simp add: ddgs_none_def)
  show ?thesis
    using call no_results_placeholder
            [of ddgs_none "initial_state (lit ''test'')" "\<lparr>world = (), console = []\<rparr>" "()"]
    by (simp add: initial_state_def)
qed

lemma search_logged_query:
  "snd (world (snd (run_node (search_tool_node (logged ddgs)) state io))) =
     snd (world io) @ [(if enhanced_query state = [] then query state else enhanced_query state, 3)]"
  by (simp add: run_search_world logged_def py_or_def split: prod.splits)

text \<open>
  Claim C4. For every run record, the query string the search stage sends to the search
  service is \<open>enhanced_query\<close> when that is non-empty, and the original \<open>query\<close> when
  \<open>enhanced_query\<close> is the empty string.
\<close>

theorem search_sends_enhanced_or_original:
  "snd (world (snd (search_tool_node (logged ddgs) state io))) =
     snd (world io) @
     [(if enhanced_query state = [] then query state else enhanced_query state, 3)]"
proof -
  have "world (snd (search_tool_node (logged ddgs) state io)) =
        world (snd (run_node (search_tool_node (logged ddgs)) state io))"
    by (simp add: run_node_def split: prod.splits sum.splits)
  then show ?thesis
    by (simp add: search_logged_query)
qed

theorem search_sends_enhanced_or_original_witness:
  "snd (world (snd (search_tool_node (logged ddgs_none)
          \<lparr>query = lit ''q'', enhanced_query = lit ''better q'', search_results = [], summary = []\<rparr>
          \<lparr>world = ((), []), console = []\<rparr>))) = [(lit ''better q'', 3)] \<and>
   snd (world (snd (search_tool_node (logged ddgs_none)
          \<lparr>query = lit ''q'', enhanced_query = [], search_results = [], summary = []\<rparr>
          \<lparr>world = ((), []), console = []\<rparr>))) = [(lit ''q'', 3)]"
  using search_sends_enhanced_or_original
          [of ddgs_none
              "\<lparr>query = lit ''q'', enhanced_query = lit ''better q'', search_results = [], summary = []\<rparr>"
              "\<lparr>world = ((), []), console = []\<rparr>"]
        search_sends_enhanced_or_original
          [of ddgs_none
              "\<lparr>query = lit ''q'', enhanced_query = [], search_results = [], summary = []\<rparr>"
              "\<lparr>world = ((), []), console = []\<rparr>"]
  by (simp add: lit_def)

text \<open>
  Claim C2. For every list of N results from the search service with N at least 1 (the
  service is asked for at most 3), the search stage sets \<open>search_results\<close> to exactly N
  entries, in input order, entry number \<open>k\<close> (counted from 1) being
  \<open>"{k}. {title}: {description}"\<close>, with \<open>"No title"\<close> for a result without a
  \<open>title\<close> field and \<open>"No description"\<close> for one without a \<open>body\<close> field. The bound
  \<open>N \<le> 3\<close> is not needed.
\<close>

theorem search_results_formatted:
  assumes "ddgs (py_or (enhanced_query state) (query state)) 3 (world io) = (Inr rs, w)"
      and "1 \<le> length rs"
  shows "fst (run_node (search_tool_node ddgs) state io) =
           Inr (state\<lparr>search_results :=
                  map (\<lambda>k. str_nat (k + 1) @ lit ''. '' @
                            (case (rs ! k) (lit ''title'') of
                               None \<Rightarrow> lit ''No title'' | Some title \<Rightarrow> title) @
                            lit '': '' @
                            (case (rs ! k) (lit ''body'') of
                               None \<Rightarrow> lit ''No description'' | Some body \<Rightarrow> body))
                      [0..<length rs]\<rparr>)"
proof -
  from assms(2) have "rs \<noteq> []" by auto
  then show ?thesis
    using run_search_fst_results [of ddgs state io rs] assms(1)
    by (simp add: dict_get_def)
qed

theorem search_results_formatted_witness:
  "ddgs_partial (py_or (enhanced_query (initial_state (lit ''test'')))
                       (query (initial_state (lit ''test''))))
     3 (world \<lparr>world = (), console = []\<rparr>) =
     (Inr [[lit ''title'' \<mapsto> lit ''A''], [lit ''body'' \<mapsto> lit ''D''], Map.empty], ()) \<and>
   1 \<le> length [[lit ''title'' \<mapsto> lit ''A''], [lit ''body'' \<mapsto> lit ''D''], Map.empty] \<and>
   fst (run_node (search_tool_node ddgs_partial) (initial_state (lit ''test''))
          \<lparr>world = (), console = []\<rparr>) =
     Inr \<lparr>query = lit ''test'', enhanced_query = [],
          search_results = [lit ''1. A: No description'', lit ''2. No title: D'',
                            lit ''3. No title: No description''],
          summary = []\<rparr>"
proof -
  have call: "ddgs_partial (py_or (enhanced_query (initial_state (lit ''test'')))
                       (query (initial_state (lit ''test''))))
     3 (world \<lparr>world = (), console = []\<rparr>) =
     (Inr [[lit ''title'' \<mapsto> lit ''A''], [lit ''body'' \<mapsto> lit ''D''], Map.empty], ())"
    by (simp add: ddgs_partial_def)
  have len: "1 \<le> length [[lit ''title'' \<mapsto> lit ''A''], [lit ''body'' \<mapsto> lit ''D''], Map.empty :: result]"
    by simp
  show ?thesis
    using call len
      search_results_formatted
        [of ddgs_partial "initial_state (lit ''test'')" "\<lparr>world = (), console = []\<rparr>"
            "[[lit ''title'' \<mapsto> lit ''A''], [lit ''body'' \<mapsto> lit ''D''], Map.empty]" "()"]
    by (simp add: initial_state_def lit_def str_nat.simps upt_rec)
qed

section \<open>The pipeline\<close>

lemma app_invoke_unfold:
  "app_invoke llm ddgs state io =
     (let n1 = run_node (enhance_query_node llm) state io
      in case fst n1 of
           Inl e \<Rightarrow> (Inl e, snd n1)
         | Inr state1 \<Rightarrow>
             (let n2 = run_node (search_tool_node ddgs) state1 (snd n1)
              in case fst n2 of
                   Inl e \<Rightarrow> (Inl e, snd n2)
                 | Inr state2 \<Rightarrow>
                     (let n3 = run_node (summarize_node llm) state2 (snd n2)
                      in case fst n3 of
                           Inl e \<Rightarrow> (Inl e, snd n3)
                         | Inr state3 \<Rightarrow> run_node format_output_node state3 (snd n3))))"
  by (simp add: app_invoke_def Let_def split: prod.splits sum.splits)

text \<open>
  Claim C1. If the search-service call raises, the search stage catches the error and sets
  \<open>search_results\<close> to the one-element list holding the error message between
  \<open>"Search error: "\<close> and \<open>". Using fallback data."\<close>; the pipeline goes on through the
  summarizer to the formatter: when both language-model calls return, \<open>app.invoke\<close>
  returns the record with that entry and the last thing printed is the report.
\<close>

theorem search_error_recovered:
  "(ddgs (py_or (enhanced_query state) (query state)) 3 (world io) = (Inl e, w) \<longrightarrow>
      fst (run_node (search_tool_node ddgs) state io) =
        Inr (state\<lparr>search_results :=
               [lit ''Search error: '' @ exn_str e @ lit ''. Using fallback data.'']\<rparr>))
   \<and>
   (llm (enhance_prompt state) (world io) = (Inr c1, w1) \<and>
    ddgs (py_or (strip c1) (query state)) 3 w1 = (Inl e, w2) \<and>
    llm (summarize_prompt
           (state\<lparr>enhanced_query := strip c1,
                  search_results :=
                    [lit ''Search error: '' @ exn_str e @ lit ''. Using fallback data.'']\<rparr>))
      w2 = (Inr c3, w3) \<longrightarrow>
      fst (app_invoke llm ddgs state io) =
        Inr (state\<lparr>enhanced_query := strip c1,
                  search_results :=
                    [lit ''Search error: '' @ exn_str e @ lit ''. Using fallback data.''],
                  summary := c3\<rparr>) \<and>
      last (console (snd (app_invoke llm ddgs state io))) =
        format_output
          (state\<lparr>enhanced_query := strip c1,
                 search_results :=
                   [lit ''Search error: '' @ exn_str e @ lit ''. Using fallback data.''],
                 summary := c3\<rparr>))"
proof (intro conjI impI)
  assume "ddgs (py_or (enhanced_query state) (query state)) 3 (world io) = (Inl e, w)"
  then show "fst (run_node (search_tool_node ddgs) state io) =
        Inr (state\<lparr>search_results :=
               [lit ''Search error: '' @ exn_str e @ lit ''. Using fallback data.'']\<rparr>)"
    using run_search_fst_error [of ddgs state io e] by simp
next
  let ?msg = "lit ''Search error: '' @ exn_str e @ lit ''. Using fallback data.''"
  let ?s1 = "state\<lparr>enhanced_query := strip c1\<rparr>"
  let ?s2 = "state\<lparr>enhanced_query := strip c1, search_results := [?msg]\<rparr>"
  let ?s3 = "state\<lparr>enhanced_query := strip c1, search_results := [?msg], summary := c3\<rparr>"
  let ?n1 = "run_node (enhance_query_node llm) state io"
  let ?n2 = "run_node (search_tool_node ddgs) ?s1 (snd ?n1)"
  let ?n3 = "run_node (summarize_node llm) ?s2 (snd ?n2)"
  assume a: "llm (enhance_prompt state) (world io) = (Inr c1, w1) \<and>
    ddgs (py_or (strip c1) (query state)) 3 w1 = (Inl e, w2) \<and>
    llm (summarize_prompt ?s2) w2 = (Inr c3, w3)"
  have f1: "fst ?n1 = Inr ?s1" and w1: "world (snd ?n1) = w1"
    using a by (simp_all add: run_enhance_fst run_enhance_world)
  have f2: "fst ?n2 = Inr ?s2"
    using run_search_fst_error [of ddgs ?s1 "snd ?n1" e] a w1 by simp
  have w2: "world (snd ?n2) = w2"
    using a w1 by (simp add: run_search_world)
  have f3: "fst ?n3 = Inr ?s3"
    using a w2 by (simp add: run_summarize_fst)
  have run: "app_invoke llm ddgs state io = run_node format_output_node ?s3 (snd ?n3)"
    by (simp add: app_invoke_unfold Let_def f1 f2 f3)
  show "fst (app_invoke llm ddgs state io) = Inr ?s3"
    by (simp add: run run_format)
  show "last (console (snd (app_invoke llm ddgs state io))) = format_output ?s3"
    by (simp add: run run_format)
qed

theorem search_error_recovered_witness:
  "ddgs_timeout (py_or (enhanced_query (initial_state (lit ''test'')))
                       (query (initial_state (lit ''test''))))
     3 (world \<lparr>world = [Inr (lit ''test explained''), Inr (lit ''Summary text'') :: exn + str],
                console = []\<rparr>) =
     (Inl (Raised ''ConnectionError'' (lit ''timeout'')),
      [Inr (lit ''test explained''), Inr (lit ''Summary text'')]) \<and>
   fst (run_node (search_tool_node ddgs_timeout) (initial_state (lit ''test''))
          \<lparr>world = [Inr (lit ''test explained''), Inr (lit ''Summary text'') :: exn + str],
            console = []\<rparr>) =
     Inr \<lparr>query = lit ''test'', enhanced_query = [],
          search_results = [lit ''Search error: timeout. Using fallback data.''],
          summary = []\<rparr> \<and>
   fst (app_invoke llm_scripted ddgs_timeout (initial_state (lit ''test''))
          \<lparr>world = [Inr (lit ''test explained''), Inr (lit ''Summary text'')],
            console = []\<rparr>) =
     Inr \<lparr>query = lit ''test'', enhanced_query = lit ''test explained'',
          search_results = [lit ''Search error: timeout. Using fallback data.''],
          summary = lit ''Summary text''\<rparr>"
proof -
  let ?w = "[Inr (lit ''test explained''), Inr (lit ''Summary text'')] :: (exn + str) list"
  let ?io = "\<lparr>world = ?w, console = []\<rparr>"
  let ?e = "Raised ''ConnectionError'' (lit ''timeout'')"
  have strip: "strip (lit ''test explained'') = lit ''test explained''"
    by (simp add: strip_def lit_def py_isspace_def)
  have msg: "lit ''Search error: '' @ lit ''timeout'' @ lit ''. Using fallback data.'' =
             lit ''Search error: timeout. Using fallback data.''"
    by (simp add: lit_def)
  show ?thesis
    using search_error_recovered
            [of ddgs_timeout "initial_state (lit ''test'')" ?io ?e ?w llm_scripted
                "lit ''test explained''" "[Inr (lit ''Summary text'')]"
                "[Inr (lit ''Summary text'')]" "lit ''Summary text''" "[]"]
    by (simp add: ddgs_timeout_def llm_scripted_def initial_state_def strip msg)
qed

text \<open>
  Claim C9. After the search stage, whether the service returned one to three results,
  returned none, or raised, \<open>search_results\<close> is a non-empty list of at most 3 entries;
  so the count after \<open>Results Found:\<close> in the report is at least 1, and it is 1 when
  nothing was found or the search failed, the placeholder entry being counted.
\<close>

theorem search_results_nonempty_capped:
  assumes "ddgs (py_or (enhanced_query state) (query state)) 3 (world io) = (r, w)"
      and "case r of Inl e \<Rightarrow> True | Inr rs \<Rightarrow> length rs \<le> 3"
  shows "\<exists>state'.
           fst (run_node (search_tool_node ddgs) state io) = Inr state' \<and>
           1 \<le> length (search_results state') \<and>
           length (search_results state') \<le> 3 \<and>
           (if r = Inr [] \<or> isl r then length (search_results state') = 1
            else length (search_results state') = length (projr r)) \<and>
           format_output state' =
             [10] @ replicate 50 61 @ [10] @
             [0x1F50D] @ lit '' SEARCH RESULTS'' @ [10] @
             replicate 50 61 @ [10] @
             lit ''Query: '' @ query state @ [10] @
             lit ''Enhanced: '' @ enhanced_query state @ [10] @ [10] @
             lit ''Results Found: '' @ str_nat (length (search_results state')) @ [10] @ [10] @
             lit ''Summary:'' @ [10] @ summary state @ [10] @
             replicate 50 61 @ [10]"
proof (cases r)
  case (Inl e)
  then show ?thesis
    using run_search_fst_error [of ddgs state io e] assms(1)
    by (simp add: format_output_def)
next
  case (Inr rs)
  then show ?thesis
    using run_search_fst_results [of ddgs state io rs] assms
    by (cases "rs = []") (simp_all add: format_output_def Suc_le_eq)
qed

theorem search_results_nonempty_capped_witness:
  "ddgs_none (py_or (enhanced_query (initial_state (lit ''test'')))
                    (query (initial_state (lit ''test''))))
     3 (world \<lparr>world = (), console = []\<rparr>) = (Inr [], ()) \<and>
   (case (Inr [] :: exn + result list) of Inl e \<Rightarrow> True | Inr rs \<Rightarrow> length rs \<le> 3) \<and>
   (\<exists>state'.
      fst (run_node (search_tool_node ddgs_none) (initial_state (lit ''test''))
             \<lparr>world = (), console = []\<rparr>) = Inr state' \<and>
      length (search_results state') = 1 \<and>
      format_output state' =
        [10] @ replicate 50 61 @ [10] @
        [0x1F50D] @ lit '' SEARCH RESULTS'' @ [10] @
        replicate 50 61 @ [10] @
        lit ''Query: test'' @ [10] @
        lit ''Enhanced: '' @ [10] @ [10] @
        lit ''Results Found: 1'' @ [10] @ [10] @
        lit ''Summary:'' @ [10] @ [10] @
        replicate 50 61 @ [10])"
proof -
  have call: "ddgs_none (py_or (enhanced_query (initial_state (lit ''test'')))
                    (query (initial_state (lit ''test''))))
     3 (world \<lparr>world = (), console = []\<rparr>) = (Inr [], ())"
    by (simp add: ddgs_none_def)
  have cap: "case (Inr [] :: exn + result list) of Inl e \<Rightarrow> True | Inr rs \<Rightarrow> length rs \<le> 3"
    by simp
  have one: "str_nat (Suc 0) = lit ''1''"
    by (simp add: str_nat.simps lit_def)
  obtain state' where
    "fst (run_node (search_tool_node ddgs_none) (initial_state (lit ''test''))
             \<lparr>world = (), console = []\<rparr>) = Inr state'"
    "length (search_results state') = 1"
    "format_output state' =
             [10] @ replicate 50 61 @ [10] @
             [0x1F50D] @ lit '' SEARCH RESULTS'' @ [10] @
             replicate 50 61 @ [10] @
             lit ''Query: '' @ query (initial_state (lit ''test'')) @ [10] @
             lit ''Enhanced: '' @ enhanced_query (initial_state (lit ''test'')) @ [10] @ [10] @
             lit ''Results Found: '' @ str_nat (length (search_results state')) @ [10] @ [10] @
             lit ''Summary:'' @ [10] @ summary (initial_state (lit ''test'')) @ [10] @
             replicate 50 61 @ [10]"
    using search_results_nonempty_capped
            [of ddgs_none "initial_state (lit ''test'')" "\<lparr>world = (), console = []\<rparr>"
                "Inr []" "()", OF call cap]
    by auto
  then show ?thesis
    using call by (auto simp: one initial_state_def lit_def)
qed

section \<open>Trimming\<close>

lemma strip_whitespace_only:
  assumes "list_all py_isspace r"
  shows "strip r = []"
proof -
  have "dropWhile py_isspace r = []"
    using assms by (induction r) simp_all
  then show ?thesis
    unfolding strip_def by (simp only: rev.simps dropWhile.simps)
qed

lemma strip_decomposition:
  "\<exists>pre post. r = pre @ strip r @ post \<and> list_all py_isspace pre \<and> list_all py_isspace post"
proof -
  let ?a = "dropWhile py_isspace r"
  let ?pre = "takeWhile py_isspace r"
  let ?post = "rev (takeWhile py_isspace (rev ?a))"
  have "rev ?a = takeWhile py_isspace (rev ?a) @ dropWhile py_isspace (rev ?a)"
    by simp
  then have "?a = strip r @ ?post"
    by (metis strip_def rev_append rev_rev_ident)
  then have "r = ?pre @ strip r @ ?post"
    by (metis takeWhile_dropWhile_id)
  moreover have "list_all py_isspace ?pre"
    by (simp add: list_all_iff) (meson set_takeWhileD)
  moreover have "list_all py_isspace ?post"
    by (simp add: list_all_iff) (meson set_takeWhileD)
  ultimately show ?thesis by blast
qed

lemma strip_ends:
  assumes "strip r \<noteq> []"
  shows "\<not> py_isspace (hd (strip r))" and "\<not> py_isspace (last (strip r))"
proof -
  let ?a = "dropWhile py_isspace r"
  have b: "dropWhile py_isspace (rev ?a) \<noteq> []"
    using assms by (simp add: strip_def)
  then have "\<not> py_isspace (hd (dropWhile py_isspace (rev ?a)))"
    by (rule hd_dropWhile)
  then show "\<not> py_isspace (last (strip r))"
    using b by (simp add: strip_def last_rev)
  have a: "?a \<noteq> []"
  proof
    assume "?a = []"
    then have "dropWhile py_isspace (rev ?a) = []" by (simp only: rev.simps dropWhile.simps)
    with b show False by contradiction
  qed
  then have h: "\<not> py_isspace (hd ?a)" by (rule hd_dropWhile)
  obtain post where "?a = strip r @ post"
    by (metis strip_def rev_append rev_rev_ident takeWhile_dropWhile_id)
  then have "hd ?a = hd (strip r)"
    using assms by (metis hd_append2)
  with h show "\<not> py_isspace (hd (strip r))" by simp
qed

section \<open>The language-model stages\<close>

lemma join_concat:
  "join sep xs = (case xs of [] \<Rightarrow> [] | x # rest \<Rightarrow> x @ concat (map (\<lambda>y. sep @ y) rest))"
  by (induction sep xs rule: join.induct) simp_all

lemma enhance_logged_prompt:
  "snd (world (snd (enhance_query_node (logged_llm llm) state io))) =
     snd (world io) @ [enhance_prompt state]"
  by (simp add: enhance_query_node_def logged_llm_def Let_def split: prod.splits sum.splits)

lemma summarize_logged_prompt:
  "snd (world (snd (summarize_node (logged_llm llm) state io))) =
     snd (world io) @ [summarize_prompt state]"
  by (simp add: summarize_node_def logged_llm_def Let_def split: prod.splits sum.splits)

text \<open>
  Claim C8. Stage 1 sets \<open>enhanced_query\<close> to the trimmed text of the model's response (by
  \<open>strip_decomposition\<close> and \<open>strip_ends\<close>: the response without its leading and trailing
  whitespace). Stage 3 calls the model once, with the prompt that embeds the original
  \<open>query\<close> and the entries of \<open>search_results\<close> joined by newlines (the first entry, then
  a newline and the next entry for each further one), and sets \<open>summary\<close> to the response
  as it is: for every response, \<open>summary\<close> equals it exactly. The last two parts read the
  prompts off a model that records what it is sent.
\<close>

theorem enhanced_trimmed_summary_raw:
  "(llm (enhance_prompt state) (world io) = (Inr r, w) \<longrightarrow>
      fst (run_node (enhance_query_node llm) state io) = Inr (state\<lparr>enhanced_query := strip r\<rparr>))
   \<and>
   (llm (lit ''Summarize these search results for the query '' @ [39] @ query state @ [39] @
         lit '':'' @ [10, 10] @
         (case search_results state of
            [] \<Rightarrow> []
          | x # rest \<Rightarrow> x @ concat (map (\<lambda>y. [10] @ y) rest)) @ [10, 10] @
         lit ''Provide a concise, helpful summary:'') (world io) = (Inr r, w) \<longrightarrow>
      fst (run_node (summarize_node llm) state io) = Inr (state\<lparr>summary := r\<rparr>))
   \<and>
   snd (world (snd (enhance_query_node (logged_llm llm) state io'))) =
     snd (world io') @
     [lit ''Enhance this search query to get better results. '' @ [10] @
      lit ''    Make it more specific and add relevant keywords.'' @ [10] @
      lit ''    Original query: '' @ query state @ [10] @
      lit ''    Enhanced query (return only the query, no explanation):'']
   \<and>
   snd (world (snd (summarize_node (logged_llm llm) state io'))) =
     snd (world io') @
     [lit ''Summarize these search results for the query '' @ [39] @ query state @ [39] @
      lit '':'' @ [10, 10] @
      (case search_results state of
         [] \<Rightarrow> []
       | x # rest \<Rightarrow> x @ concat (map (\<lambda>y. [10] @ y) rest)) @ [10, 10] @
      lit ''Provide a concise, helpful summary:'']"
proof -
  have prompt: "summarize_prompt state =
      lit ''Summarize these search results for the query '' @ [39] @ query state @ [39] @
      lit '':'' @ [10, 10] @
      (case search_results state of
         [] \<Rightarrow> []
       | x # rest \<Rightarrow> x @ concat (map (\<lambda>y. [10] @ y) rest)) @ [10, 10] @
      lit ''Provide a concise, helpful summary:''"
    unfolding summarize_prompt_def by (subst join_concat) (rule refl)
  show ?thesis
    unfolding prompt [symmetric]
    by (simp add: run_enhance_fst run_summarize_fst enhance_logged_prompt
          summarize_logged_prompt enhance_prompt_def)
qed

theorem enhanced_trimmed_summary_raw_witness:
  "llm_const ([32] @ lit ''test explained'' @ [10])
     (enhance_prompt
        \<lparr>query = lit ''test'', enhanced_query = [],
          search_results = [lit ''1. A: B'', lit ''2. C: D''], summary = []\<rparr>)
     (world \<lparr>world = (), console = []\<rparr>) = (Inr ([32] @ lit ''test explained'' @ [10]), ()) \<and>
   llm_const ([32] @ lit ''test explained'' @ [10])
     (lit ''Summarize these search results for the query '' @ [39] @ lit ''test'' @ [39] @
      lit '':'' @ [10, 10] @ lit ''1. A: B'' @ [10] @ lit ''2. C: D'' @ [10, 10] @
      lit ''Provide a concise, helpful summary:'')
     (world \<lparr>world = (), console = []\<rparr>) = (Inr ([32] @ lit ''test explained'' @ [10]), ()) \<and>
   fst (run_node (enhance_query_node (llm_const ([32] @ lit ''test explained'' @ [10])))
          \<lparr>query = lit ''test'', enhanced_query = [],
            search_results = [lit ''1. A: B'', lit ''2. C: D''], summary = []\<rparr>
          \<lparr>world = (), console = []\<rparr>) =
     Inr \<lparr>query = lit ''test'', enhanced_query = lit ''test explained'',
          search_results = [lit ''1. A: B'', lit ''2. C: D''], summary = []\<rparr> \<and>
   fst (run_node (summarize_node (llm_const ([32] @ lit ''test explained'' @ [10])))
          \<lparr>query = lit ''test'', enhanced_query = [],
            search_results = [lit ''1. A: B'', lit ''2. C: D''], summary = []\<rparr>
          \<lparr>world = (), console = []\<rparr>) =
     Inr \<lparr>query = lit ''test'', enhanced_query = [],
          search_results = [lit ''1. A: B'', lit ''2. C: D''],
          summary = [32] @ lit ''test explained'' @ [10]\<rparr> \<and>
   snd (world (snd (summarize_node (logged_llm (llm_const ([32] @ lit ''test explained'' @ [10])))
          \<lparr>query = lit ''test'', enhanced_query = [],
            search_results = [lit ''1. A: B'', lit ''2. C: D''], summary = []\<rparr>
          \<lparr>world = ((), []), console = []\<rparr>))) =
     [lit ''Summarize these search results for the query '' @ [39] @ lit ''test'' @ [39] @
      lit '':'' @ [10, 10] @ lit ''1. A: B'' @ [10] @ lit ''2. C: D'' @ [10, 10] @
      lit ''Provide a concise, helpful summary:'']"
proof -
  have strip: "strip (32 # lit ''test explained'' @ [10]) = lit ''test explained''"
    by (simp add: strip_def lit_def py_isspace_def)
  show ?thesis
    using enhanced_trimmed_summary_raw
            [of "llm_const ([32] @ lit ''test explained'' @ [10])"
                "\<lparr>query = lit ''test'', enhanced_query = [],
                  search_results = [lit ''1. A: B'', lit ''2. C: D''], summary = []\<rparr>"
                "\<lparr>world = (), console = []\<rparr>"
                "[32] @ lit ''test explained'' @ [10]" "()"
                "\<lparr>world = ((), []), console = []\<rparr>"]
    by (simp add: llm_const_def strip)
qed

text \<open>
  Claim C10. For every model response that consists only of whitespace, the enhancer's
  trimming makes \<open>enhanced_query\<close> the empty string, so the search stage sends the original
  query: it behaves exactly as it does on an empty enhancement.
\<close>

theorem whitespace_enhancement_falls_back:
  assumes "llm (enhance_prompt state) (world io) = (Inr r, w)"
      and "list_all py_isspace r"
  shows "fst (run_node (enhance_query_node llm) state io) = Inr (state\<lparr>enhanced_query := []\<rparr>) \<and>
         run_node (search_tool_node ddgs) (state\<lparr>enhanced_query := strip r\<rparr>) io' =
           run_node (search_tool_node ddgs) (state\<lparr>enhanced_query := []\<rparr>) io' \<and>
         snd (world (snd (run_node (search_tool_node (logged ddgs))
                            (state\<lparr>enhanced_query := strip r\<rparr>) io''))) =
           snd (world io'') @ [(query state, 3)]"
  using assms
  by (simp add: run_enhance_fst strip_whitespace_only search_logged_query)

theorem whitespace_enhancement_falls_back_witness:
  "llm_const [32, 10, 9, 0x3000] (enhance_prompt (initial_state (lit ''test'')))
     (world \<lparr>world = (), console = []\<rparr>) = (Inr [32, 10, 9, 0x3000], ()) \<and>
   list_all py_isspace [32, 10, 9, 0x3000] \<and>
   fst (run_node (enhance_query_node (llm_const [32, 10, 9, 0x3000]))
          (initial_state (lit ''test'')) \<lparr>world = (), console = []\<rparr>) =
     Inr \<lparr>query = lit ''test'', enhanced_query = [], search_results = [], summary = []\<rparr> \<and>
   snd (world (snd (run_node (search_tool_node (logged ddgs_none))
                      ((initial_state (lit ''test''))\<lparr>enhanced_query := strip [32, 10, 9, 0x3000]\<rparr>)
                      \<lparr>world = ((), []), console = []\<rparr>))) = [(lit ''test'', 3)]"
proof -
  have call: "llm_const [32, 10, 9, 0x3000] (enhance_prompt (initial_state (lit ''test'')))
     (world \<lparr>world = (), console = []\<rparr>) = (Inr [32, 10, 9, 0x3000], ())"
    by (simp add: llm_const_def)
  have ws: "list_all py_isspace [32, 10, 9, 0x3000]"
    by (simp add: py_isspace_def)
  show ?thesis
    using call ws
      whitespace_enhancement_falls_back
        [of "llm_const [32, 10, 9, 0x3000]" "initial_state (lit ''test'')"
            "\<lparr>world = (), console = []\<rparr>" "[32, 10, 9, 0x3000]" "()" ddgs_none
            "\<lparr>world = (), console = []\<rparr>" "\<lparr>world = ((), []), console = []\<rparr>", OF call ws]
    by (simp add: initial_state_def)
qed

section \<open>Fields written by each stage\<close>

lemma enhance_update_keys:
  assumes "fst (enhance_query_node llm state io) = Inr u"
  shows "upd_query u = None \<and> upd_search_results u = None \<and> upd_summary u = None"
  using assms
  by (auto simp: enhance_query_node_def Let_def no_update_def split: prod.splits sum.splits)

lemma search_update_keys:
  assumes "fst (search_tool_node ddgs state io) = Inr u"
  shows "upd_query u = None \<and> upd_enhanced_query u = None \<and> upd_summary u = None"
  using assms
  by (auto simp: search_tool_node_def Let_def no_update_def split: prod.splits sum.splits if_splits)

lemma summarize_update_keys:
  assumes "fst (summarize_node llm state io) = Inr u"
  shows "upd_query u = None \<and> upd_enhanced_query u = None \<and> upd_search_results u = None"
  using assms
  by (auto simp: summarize_node_def Let_def no_update_def split: prod.splits sum.splits)

lemma run_enhance_keeps:
  assumes "fst (run_node (enhance_query_node llm) state io) = Inr state'"
  shows "query state' = query state \<and> search_results state' = search_results state \<and>
         summary state' = summary state"
  using assms by (auto simp: run_enhance_fst split: sum.splits)

lemma run_search_keeps:
  assumes "fst (run_node (search_tool_node ddgs) state io) = Inr state'"
  shows "query state' = query state \<and> enhanced_query state' = enhanced_query state \<and>
         summary state' = summary state"
proof (cases "fst (ddgs (py_or (enhanced_query state) (query state)) 3 (world io))")
  case (Inl e)
  from run_search_fst_error [of ddgs state io e] Inl assms show ?thesis by auto
next
  case (Inr rs)
  from run_search_fst_results [of ddgs state io rs] Inr assms show ?thesis by auto
qed

lemma run_summarize_keeps:
  assumes "fst (run_node (summarize_node llm) state io) = Inr state'"
  shows "query state' = query state \<and> enhanced_query state' = enhanced_query state \<and>
         search_results state' = search_results state"
  using assms by (auto simp: run_summarize_fst split: sum.splits)

lemma app_invoke_keeps_query:
  assumes "fst (app_invoke llm ddgs state io) = Inr final"
  shows "query final = query state"
proof -
  let ?n1 = "run_node (enhance_query_node llm) state io"
  from assms obtain s1 where s1: "fst ?n1 = Inr s1"
    by (cases "fst ?n1") (simp_all add: app_invoke_unfold Let_def)
  let ?n2 = "run_node (search_tool_node ddgs) s1 (snd ?n1)"
  from assms s1 obtain s2 where s2: "fst ?n2 = Inr s2"
    by (cases "fst ?n2") (simp_all add: app_invoke_unfold Let_def)
  let ?n3 = "run_node (summarize_node llm) s2 (snd ?n2)"
  from assms s1 s2 obtain s3 where s3: "fst ?n3 = Inr s3"
    by (cases "fst ?n3") (simp_all add: app_invoke_unfold Let_def)
  from assms s1 s2 s3 have "final = s3"
    by (simp add: app_invoke_unfold Let_def run_format)
  then show ?thesis
    using run_enhance_keeps [OF s1] run_search_keeps [OF s2] run_summarize_keeps [OF s3]
    by simp
qed

text \<open>
  Claim C5. Every stage writes only its own field of the run record and leaves the fields
  written by earlier stages unchanged: the enhancer's update holds only
  \<open>enhanced_query\<close>, the search stage's only \<open>search_results\<close>, the summarizer's only
  \<open>summary\<close>, and the formatter returns the record as it is; so \<open>query\<close> is the same at
  the end of \<open>app.invoke\<close> as at creation.
\<close>

theorem stages_write_own_field:
  "(\<forall>u. fst (enhance_query_node llm state io) = Inr u \<longrightarrow>
        upd_query u = None \<and> upd_search_results u = None \<and> upd_summary u = None) \<and>
   (\<forall>state'. fst (run_node (enhance_query_node llm) state io) = Inr state' \<longrightarrow>
        query state' = query state \<and> search_results state' = search_results state \<and>
        summary state' = summary state) \<and>
   (\<forall>u. fst (search_tool_node ddgs state io) = Inr u \<longrightarrow>
        upd_query u = None \<and> upd_enhanced_query u = None \<and> upd_summary u = None) \<and>
   (\<forall>state'. fst (run_node (search_tool_node ddgs) state io) = Inr state' \<longrightarrow>
        query state' = query state \<and> enhanced_query state' = enhanced_query state \<and>
        summary state' = summary state) \<and>
   (\<forall>u. fst (summarize_node llm state io) = Inr u \<longrightarrow>
        upd_query u = None \<and> upd_enhanced_query u = None \<and> upd_search_results u = None) \<and>
   (\<forall>state'. fst (run_node (summarize_node llm) state io) = Inr state' \<longrightarrow>
        query state' = query state \<and> enhanced_query state' = enhanced_query state \<and>
        search_results state' = search_results state) \<and>
   fst (run_node format_output_node state io) = Inr state \<and>
   (\<forall>final. fst (app_invoke llm ddgs state io) = Inr final \<longrightarrow> query final = query state)"
proof (intro conjI allI impI)
  show "fst (run_node format_output_node state io) = Inr state"
    by (simp add: run_format)
qed (simp_all add: enhance_update_keys search_update_keys summarize_update_keys
       run_enhance_keeps run_search_keeps run_summarize_keeps app_invoke_keeps_query)

theorem stages_write_own_field_witness:
  "fst (enhance_query_node (llm_const (lit ''test explained'')) (initial_state (lit ''test''))
          \<lparr>world = (), console = []\<rparr>) =
     Inr \<lparr>upd_query = None, upd_enhanced_query = Some (lit ''test explained''),
          upd_search_results = None, upd_summary = None\<rparr> \<and>
   fst (search_tool_node ddgs_none (initial_state (lit ''test''))
          \<lparr>world = (), console = []\<rparr>) =
     Inr \<lparr>upd_query = None, upd_enhanced_query = None,
          upd_search_results = Some [lit ''No results found. Try a different query.''],
          upd_summary = None\<rparr> \<and>
   fst (summarize_node (llm_const (lit ''test explained'')) (initial_state (lit ''test''))
          \<lparr>world = (), console = []\<rparr>) =
     Inr \<lparr>upd_query = None, upd_enhanced_query = None, upd_search_results = None,
          upd_summary = Some (lit ''test explained'')\<rparr> \<and>
   fst (run_node format_output_node (initial_state (lit ''test''))
          \<lparr>world = (), console = []\<rparr>) = Inr (initial_state (lit ''test'')) \<and>
   fst (app_invoke (llm_const (lit ''test explained'')) ddgs_none (initial_state (lit ''test''))
          \<lparr>world = (), console = []\<rparr>) =
     Inr \<lparr>query = lit ''test'', enhanced_query = lit ''test explained'',
          search_results = [lit ''No results found. Try a different query.''],
          summary = lit ''test explained''\<rparr> \<and>
   query \<lparr>query = lit ''test'', enhanced_query = lit ''test explained'',
          search_results = [lit ''No results found. Try a different query.''],
          summary = lit ''test explained''\<rparr> = query (initial_state (lit ''test''))"
proof -
  have strip: "strip (lit ''test explained'') = lit ''test explained''"
    by (simp add: strip_def lit_def py_isspace_def)
  have run: "fst (app_invoke (llm_const (lit ''test explained'')) ddgs_none
                    (initial_state (lit ''test'')) \<lparr>world = (), console = []\<rparr>) =
     Inr \<lparr>query = lit ''test'', enhanced_query = lit ''test explained'',
          search_results = [lit ''No results found. Try a different query.''],
          summary = lit ''test explained''\<rparr>"
    by (simp add: app_invoke_def run_node_def enhance_query_node_def search_tool_node_def
          summarize_node_def format_output_node_def Let_def py_print_def llm_const_def
          ddgs_none_def merge_def no_update_def whole_state_def initial_state_def py_or_def strip)
  show ?thesis
    using run
      stages_write_own_field
        [of "llm_const (lit ''test explained'')" "initial_state (lit ''test'')"
            "\<lparr>world = (), console = []\<rparr>" ddgs_none]
    by (simp add: enhance_query_node_def search_tool_node_def summarize_node_def Let_def
          py_print_def llm_const_def ddgs_none_def no_update_def initial_state_def strip)
qed

section \<open>The formatter\<close>

text \<open>
  Claim C6. The output formatter is a pure function of the run record: it calls no
  service, the report it prints is \<open>format_output\<close> of the record whatever the world and
  the console were, so two invocations on the same record print the same text, and it
  returns the record unchanged.
\<close>

theorem format_output_pure:
  "fst (format_output_node state io) = Inr (whole_state state) \<and>
   fst (run_node format_output_node state io) = Inr state \<and>
   world (snd (run_node format_output_node state io)) = world io \<and>
   console (snd (run_node format_output_node state io)) =
     console io @ [[10, 0x1F4E4] @ lit '' Format Output Node'', format_output state] \<and>
   console (snd (run_node format_output_node state (snd (run_node format_output_node state io)))) =
     console io @ [[10, 0x1F4E4] @ lit '' Format Output Node'', format_output state,
                   [10, 0x1F4E4] @ lit '' Format Output Node'', format_output state] \<and>
   last (console (snd (run_node format_output_node state io'))) =
     last (console (snd (run_node format_output_node state io)))"
  by (simp add: run_format format_output_node_def Let_def)

theorem format_output_pure_witness:
  "last (console (snd (run_node format_output_node
      \<lparr>query = lit ''test'', enhanced_query = lit ''test explained'',
        search_results = [lit ''1. A: B'', lit ''2. C: D''], summary = lit ''Summary text''\<rparr>
      \<lparr>world = (), console = [lit ''earlier output'']\<rparr>))) =
   [10] @ replicate 50 61 @ [10] @
   [0x1F50D] @ lit '' SEARCH RESULTS'' @ [10] @
   replicate 50 61 @ [10] @
   lit ''Query: test'' @ [10] @
   lit ''Enhanced: test explained'' @ [10] @ [10] @
   lit ''Results Found: 2'' @ [10] @ [10] @
   lit ''Summary:'' @ [10] @
   lit ''Summary text'' @ [10] @
   replicate 50 61 @ [10]"
  using format_output_pure
          [of "\<lparr>query = lit ''test'', enhanced_query = lit ''test explained'',
                search_results = [lit ''1. A: B'', lit ''2. C: D''],
                summary = lit ''Summary text''\<rparr>"
              "\<lparr>world = (), console = [lit ''earlier output'']\<rparr>"
              "\<lparr>world = (), console = [lit ''earlier output'']\<rparr>"]
  by (simp add: format_output_def lit_def str_nat.simps)

section \<open>The driver\<close>

lemma search_loop_console:
  "\<exists>ls. console (snd (search_loop i rs found io)) = console io @ ls \<and>
        filter is_driver_line ls = []"
proof (induction rs arbitrary: i found io)
  case Nil
  then show ?case by simp
next
  case (Cons r rs)
  let ?line = "lit ''   '' @ [0x2192] @ lit '' Found result '' @ str_nat i @ lit '': '' @
               take 50 (dict_get r (lit ''title'') (lit ''No title'')) @ lit ''...''"
  let ?found = "found @ [str_nat i @ lit ''. '' @ dict_get r (lit ''title'') (lit ''No title'') @
                         lit '': '' @ dict_get r (lit ''body'') (lit ''No description'')]"
  obtain ls where ls:
    "console (snd (search_loop (Suc i) rs ?found (py_print ?line io))) =
       console (py_print ?line io) @ ls" "filter is_driver_line ls = []"
    using Cons.IH by blast
  have quiet: "\<not> is_driver_line ?line"
    by (simp add: is_driver_line_def is_testing_line_def is_outcome_line_def lit_def)
  have "console (snd (search_loop i (r # rs) found io)) = console io @ (?line # ls)"
    using ls(1) by (simp add: Let_def)
  moreover have "filter is_driver_line (?line # ls) = []"
    using quiet ls(2) by simp
  ultimately show ?case by blast
qed

lemma enhance_console:
  "\<exists>ls. console (snd (run_node (enhance_query_node llm) state io)) = console io @ ls \<and>
        filter is_driver_line ls = []"
  by (simp add: run_node_def enhance_query_node_def Let_def
        is_driver_line_def is_testing_line_def is_outcome_line_def lit_def
        split: prod.splits sum.splits)

lemma summarize_console:
  "\<exists>ls. console (snd (run_node (summarize_node llm) state io)) = console io @ ls \<and>
        filter is_driver_line ls = []"
  by (simp add: run_node_def summarize_node_def Let_def
        is_driver_line_def is_testing_line_def is_outcome_line_def lit_def
        split: prod.splits sum.splits)

lemma replicate_50: "replicate 50 x = x # replicate 49 x"
proof -
  have "(50::nat) = Suc 49" by simp
  then show ?thesis by (simp only: replicate.simps)
qed

lemma format_console:
  "\<exists>ls. console (snd (run_node format_output_node state io)) = console io @ ls \<and>
        filter is_driver_line ls = []"
proof -
  have "take 2 (format_output state) = [10, 61]"
    by (simp add: format_output_def replicate_50)
  then have "\<not> is_driver_line (format_output state)"
    by (auto simp: is_driver_line_def is_testing_line_def is_outcome_line_def
          dest: arg_cong [where f = "take 1"])
  then show ?thesis
    by (simp add: run_format is_driver_line_def is_testing_line_def is_outcome_line_def lit_def)
qed

lemma search_console:
  "\<exists>ls. console (snd (run_node (search_tool_node ddgs) state io)) = console io @ ls \<and>
        filter is_driver_line ls = []"
proof -
  let ?q = "py_or (enhanced_query state) (query state)"
  let ?l1 = "[10, 0x1F986] @ lit '' Search Tool Node (DuckDuckGo)''"
  let ?l2 = "lit ''   Searching for: '' @ [39] @ ?q @ [39]"
  let ?io2 = "py_print ?l2 (py_print ?l1 io)"
  have q1: "\<not> is_driver_line ?l1" and q2: "\<not> is_driver_line ?l2"
    by (simp_all add: is_driver_line_def is_testing_line_def is_outcome_line_def lit_def)
  show ?thesis
  proof (cases "ddgs ?q 3 (world io)")
    case (Pair r w)
    show ?thesis
    proof (cases r)
      case (Inl e)
      let ?l3 = "lit ''   '' @ [0x26A0, 0xFE0F] @ lit '' Search error: '' @ exn_str e"
      have q3: "\<not> is_driver_line ?l3"
        by (simp add: is_driver_line_def is_testing_line_def is_outcome_line_def lit_def)
      have "console (snd (run_node (search_tool_node ddgs) state io)) =
              console io @ [?l1, ?l2, ?l3]"
        using Pair Inl by (simp add: run_node_def search_tool_node_def Let_def)
      moreover have "filter is_driver_line [?l1, ?l2, ?l3] = []"
        using q1 q2 q3 by simp
      ultimately show ?thesis by blast
    next
      case (Inr rs)
      let ?loop = "search_loop (Suc 0) rs [] (?io2\<lparr>world := w\<rparr>)"
      obtain ls where ls: "console (snd ?loop) = console (?io2\<lparr>world := w\<rparr>) @ ls"
        "filter is_driver_line ls = []"
        using search_loop_console [of "Suc 0" rs "[]" "?io2\<lparr>world := w\<rparr>"] by blast
      let ?l4 = "lit ''   '' @ [0x2192] @ lit '' No results found''"
      have q4: "\<not> is_driver_line ?l4"
        by (simp add: is_driver_line_def is_testing_line_def is_outcome_line_def lit_def)
      have "console (snd (run_node (search_tool_node ddgs) state io)) =
              console io @ ([?l1, ?l2] @ ls @ (if fst ?loop = [] then [?l4] else []))"
        using Pair Inr ls(1)
        by (auto simp: run_node_def search_tool_node_def Let_def split: prod.splits)
      moreover have "filter is_driver_line ([?l1, ?l2] @ ls @ (if fst ?loop = [] then [?l4] else [])) = []"
        using q1 q2 q4 ls(2) by simp
      ultimately show ?thesis by blast
    qed
  qed
qed

lemma app_invoke_console:
  "\<exists>ls. console (snd (app_invoke llm ddgs state io)) = console io @ ls \<and>
        filter is_driver_line ls = []"
proof -
  let ?n1 = "run_node (enhance_query_node llm) state io"
  obtain l1 where l1: "console (snd ?n1) = console io @ l1" "filter is_driver_line l1 = []"
    using enhance_console [of llm state io] by blast
  show ?thesis
  proof (cases "fst ?n1")
    case (Inl e)
    then have "snd (app_invoke llm ddgs state io) = snd ?n1"
      by (simp add: app_invoke_unfold Let_def)
    with l1 show ?thesis by auto
  next
    case s1: (Inr s1)
    let ?n2 = "run_node (search_tool_node ddgs) s1 (snd ?n1)"
    obtain l2 where l2: "console (snd ?n2) = console (snd ?n1) @ l2"
      "filter is_driver_line l2 = []"
      using search_console [of ddgs s1 "snd ?n1"] by blast
    show ?thesis
    proof (cases "fst ?n2")
      case (Inl e)
      then have "snd (app_invoke llm ddgs state io) = snd ?n2"
        using s1 by (simp add: app_invoke_unfold Let_def)
      then have "console (snd (app_invoke llm ddgs state io)) = console io @ (l1 @ l2)"
        using l1 l2 by simp
      moreover have "filter is_driver_line (l1 @ l2) = []"
        using l1 l2 by simp
      ultimately show ?thesis by blast
    next
      case s2: (Inr s2)
      let ?n3 = "run_node (summarize_node llm) s2 (snd ?n2)"
      obtain l3 where l3: "console (snd ?n3) = console (snd ?n2) @ l3"
        "filter is_driver_line l3 = []"
        using summarize_console [of llm s2 "snd ?n2"] by blast
      show ?thesis
      proof (cases "fst ?n3")
        case (Inl e)
        then have "snd (app_invoke llm ddgs state io) = snd ?n3"
          using s1 s2 by (simp add: app_invoke_unfold Let_def)
        then have "console (snd (app_invoke llm ddgs state io)) = console io @ (l1 @ l2 @ l3)"
          using l1 l2 l3 by simp
        moreover have "filter is_driver_line (l1 @ l2 @ l3) = []"
          using l1 l2 l3 by simp
        ultimately show ?thesis by blast
      next
        case s3: (Inr s3)
        let ?n4 = "run_node format_output_node s3 (snd ?n3)"
        obtain l4 where l4: "console (snd ?n4) = console (snd ?n3) @ l4"
          "filter is_driver_line l4 = []"
          using format_console [of s3 "snd ?n3"] by blast
        have "snd (app_invoke llm ddgs state io) = snd ?n4"
          using s1 s2 s3 by (simp add: app_invoke_unfold Let_def)
        then have "console (snd (app_invoke llm ddgs state io)) =
                     console io @ (l1 @ l2 @ l3 @ l4)"
          using l1 l2 l3 l4 by simp
        moreover have "filter is_driver_line (l1 @ l2 @ l3 @ l4) = []"
          using l1 l2 l3 l4 by simp
        ultimately show ?thesis by blast
      qed
    qed
  qed
qed

lemma testing_line_kind:
  "is_testing_line (testing_line q)" "\<not> is_outcome_line (testing_line q)"
  by (simp_all add: is_testing_line_def is_outcome_line_def testing_line_def)

lemma outcome_not_testing:
  assumes "is_outcome_line s"
  shows "\<not> is_testing_line s"
  using assms
  by (auto simp: is_testing_line_def is_outcome_line_def dest: arg_cong [where f = "take 1"])

lemma outcome_line_kind:
  "is_outcome_line completed_line" "is_outcome_line (error_line e)"
  by (simp_all add: is_outcome_line_def completed_line_def error_line_def)

lemma dashes_quiet: "\<not> is_driver_line (replicate 40 45)"
proof -
  have "(40::nat) = Suc 39" by simp
  then have "replicate 40 (45::nat) = 45 # replicate 39 45"
    by (simp only: replicate.simps)
  then show ?thesis
    by (simp add: is_driver_line_def is_testing_line_def is_outcome_line_def)
qed

lemma quiet_not_testing:
  assumes "filter is_driver_line ls = []"
  shows "filter is_testing_line ls = []"
  using assms by (auto simp: filter_empty_conv is_driver_line_def)

lemma run_tests_step:
  "\<exists>io' ls out.
     run_tests llm ddgs (q # qs) io = run_tests llm ddgs qs io' \<and>
     console io' = console io @ [testing_line q] @ ls @ [out] \<and>
     filter is_driver_line ls = [] \<and> is_outcome_line out"
proof -
  let ?io2 = "py_print (replicate 40 45) (py_print (testing_line q) io)"
  let ?run = "app_invoke llm ddgs (initial_state q) ?io2"
  obtain ls where ls: "console (snd ?run) = console ?io2 @ ls" "filter is_driver_line ls = []"
    using app_invoke_console [of llm ddgs "initial_state q" ?io2] by blast
  let ?out = "case fst ?run of Inl e \<Rightarrow> error_line e | Inr result \<Rightarrow> completed_line"
  have step: "run_tests llm ddgs (q # qs) io = run_tests llm ddgs qs (py_print ?out (snd ?run))"
    by (simp add: Let_def split: prod.splits sum.splits)
  have "console (py_print ?out (snd ?run)) =
          console io @ [testing_line q] @ (replicate 40 45 # ls) @ [?out]"
    using ls(1) by simp
  moreover have "filter is_driver_line (replicate 40 45 # ls) = []"
    using ls(2) dashes_quiet by simp
  moreover have "is_outcome_line ?out"
    by (simp add: outcome_line_kind split: sum.splits)
  ultimately show ?thesis
    using step by blast
qed

lemma run_tests_driver_lines:
  "\<exists>outs. length outs = length qs \<and> list_all is_outcome_line outs \<and>
     filter is_driver_line (console (run_tests llm ddgs qs io)) =
       filter is_driver_line (console io) @
       concat (map (\<lambda>(q, out). [testing_line q, out]) (zip qs outs))"
proof (induction qs arbitrary: io)
  case Nil
  then show ?case by simp
next
  case (Cons q qs)
  obtain io' ls out where step:
    "run_tests llm ddgs (q # qs) io = run_tests llm ddgs qs io'"
    "console io' = console io @ [testing_line q] @ ls @ [out]"
    "filter is_driver_line ls = []" "is_outcome_line out"
    using run_tests_step [of llm ddgs q qs io] by blast
  obtain outs where outs: "length outs = length qs" "list_all is_outcome_line outs"
    "filter is_driver_line (console (run_tests llm ddgs qs io')) =
       filter is_driver_line (console io') @
       concat (map (\<lambda>(q, out). [testing_line q, out]) (zip qs outs))"
    using Cons.IH [of io'] by blast
  have "filter is_driver_line (console io') =
          filter is_driver_line (console io) @ [testing_line q, out]"
    using step(2-4) testing_line_kind(1) [of q] by (simp add: is_driver_line_def)
  then have "filter is_driver_line (console (run_tests llm ddgs (q # qs) io)) =
       filter is_driver_line (console io) @
       concat (map (\<lambda>(q, out). [testing_line q, out]) (zip (q # qs) (out # outs)))"
    using step(1) outs(3) by simp
  moreover have "length (out # outs) = length (q # qs)"
    using outs(1) by simp
  moreover have "list_all is_outcome_line (out # outs)"
    using outs(2) step(4) by simp
  ultimately show ?case by blast
qed

lemma run_tests_testing_lines:
  "filter is_testing_line (console (run_tests llm ddgs qs io)) =
     filter is_testing_line (console io) @ map testing_line qs"
proof (induction qs arbitrary: io)
  case Nil
  then show ?case by simp
next
  case (Cons q qs)
  obtain io' ls out where step:
    "run_tests llm ddgs (q # qs) io = run_tests llm ddgs qs io'"
    "console io' = console io @ [testing_line q] @ ls @ [out]"
    "filter is_driver_line ls = []" "is_outcome_line out"
    using run_tests_step [of llm ddgs q qs io] by blast
  have "filter is_testing_line (console io') =
          filter is_testing_line (console io) @ [testing_line q]"
    using step(2) quiet_not_testing [OF step(3)] outcome_not_testing [OF step(4)]
      testing_line_kind(1) [of q]
    by simp
  then show ?case
    using step(1) Cons.IH [of io'] by simp
qed

lemma strip_plain:
  "strip (lit ''LangGraph uses'') = lit ''LangGraph uses''"
  "strip (lit ''search API'') = lit ''search API''"
  by (simp_all add: strip_def lit_def py_isspace_def)

lemma replicate_2: "replicate 2 x = [x, x]"
  by (simp add: numeral_2_eq_2)

text \<open>
  The batch scenario: of the three test queries the second makes the enhancer raise; the
  first and the third still complete, and only the second logs an error.
\<close>

lemma batch_scenario:
  "filter is_driver_line
     (console (run_tests llm_scripted ddgs_two test_queries
        \<lparr>world = [Inr (lit ''LangGraph uses''), Inr (lit ''Summary one''),
                   Inl (Raised ''ConnectionError'' (lit ''refused'')),
                   Inr (lit ''search API''), Inr (lit ''Summary three'')],
          console = []\<rparr>)) =
     [testing_line (lit ''What is LangGraph used for?''), completed_line,
      testing_line (lit ''How to build AI agents?''),
      error_line (Raised ''ConnectionError'' (lit ''refused'')),
      testing_line (lit ''DuckDuckGo search API''), completed_line]"
  by (simp add: test_queries_def app_invoke_def run_node_def enhance_query_node_def
        search_tool_node_def summarize_node_def format_output_node_def Let_def py_print_def
        llm_scripted_def ddgs_two_def initial_state_def merge_def no_update_def whole_state_def
        py_or_def strip_plain is_driver_line_def is_testing_line_def is_outcome_line_def
        testing_line_def completed_line_def error_line_def format_output_def replicate_50
        dict_get_def replicate_2 lit_def)

text \<open>
  Claim C7. The driver runs the pipeline once per query of the list, each run on a fresh
  record: whatever the services do, the console shows, for every query in order, the line
  that starts its run followed by exactly one outcome line. A run that returns leaves its
  world and console behind, prints the completion line and the loop goes on with the
  remaining queries; a run that raises does the same with the error line, the error being
  caught at the top level, so it does not keep the later queries from running.
\<close>

theorem driver_processes_every_query:
  "(\<exists>outs. length outs = length qs \<and> list_all is_outcome_line outs \<and>
      filter is_driver_line (console (run_tests llm ddgs qs io)) =
        filter is_driver_line (console io) @
        concat (map (\<lambda>(q, out). [testing_line q, out]) (zip qs outs))) \<and>
   filter is_testing_line (console (run_tests llm ddgs qs io)) =
     filter is_testing_line (console io) @ map testing_line qs \<and>
   (app_invoke llm ddgs (initial_state q)
      (py_print (replicate 40 45) (py_print (testing_line q) io)) = (Inl e, io3) \<longrightarrow>
    run_tests llm ddgs (q # qs) io = run_tests llm ddgs qs (py_print (error_line e) io3)) \<and>
   (app_invoke llm ddgs (initial_state q)
      (py_print (replicate 40 45) (py_print (testing_line q) io)) = (Inr result, io3) \<longrightarrow>
    run_tests llm ddgs (q # qs) io = run_tests llm ddgs qs (py_print completed_line io3))"
  using run_tests_driver_lines [of qs llm ddgs io] run_tests_testing_lines [of llm ddgs qs io]
  by (simp add: Let_def)

theorem driver_processes_every_query_witness:
  "app_invoke llm_scripted ddgs_two (initial_state (lit ''test''))
     (py_print (replicate 40 45)
        (py_print (testing_line (lit ''test''))
           \<lparr>world = [Inr (lit ''test explained''), Inr (lit ''Summary text''),
                      Inl (Raised ''ConnectionError'' (lit ''refused''))],
             console = []\<rparr>)) =
     (Inr \<lparr>query = lit ''test'', enhanced_query = lit ''test explained'',
           search_results = [lit ''1. A: B'', lit ''2. C: D''], summary = lit ''Summary text''\<rparr>,
      \<lparr>world = [Inl (Raised ''ConnectionError'' (lit ''refused''))],
        console =
          [testing_line (lit ''test''), replicate 40 45,
           [10, 0x1F3AF] @ lit '' Enhance Query Node'',
           lit ''   Original query: '' @ [39] @ lit ''test'' @ [39],
           lit ''   Enhanced query: '' @ [39] @ lit ''test explained'' @ [39],
           [10, 0x1F986] @ lit '' Search Tool Node (DuckDuckGo)'',
           lit ''   Searching for: '' @ [39] @ lit ''test explained'' @ [39],
           lit ''   '' @ [0x2192] @ lit '' Found result 1: A...'',
           lit ''   '' @ [0x2192] @ lit '' Found result 2: C...'',
           [10, 0x1F4DD] @ lit '' Summarize Node'',
           lit ''   '' @ [0x2192] @ lit '' Generated summary (12 chars)'',
           [10, 0x1F4E4] @ lit '' Format Output Node'',
           format_output
             \<lparr>query = lit ''test'', enhanced_query = lit ''test explained'',
               search_results = [lit ''1. A: B'', lit ''2. C: D''],
               summary = lit ''Summary text''\<rparr>]\<rparr>) \<and>
   app_invoke llm_scripted ddgs_two (initial_state (lit ''How to build AI agents?''))
     (py_print (replicate 40 45)
        (py_print (testing_line (lit ''How to build AI agents?''))
           \<lparr>world = [Inl (Raised ''ConnectionError'' (lit ''refused''))],
             console = [lit ''earlier output'']\<rparr>)) =
     (Inl (Raised ''ConnectionError'' (lit ''refused'')),
      \<lparr>world = [],
        console = [lit ''earlier output'',
                   testing_line (lit ''How to build AI agents?''), replicate 40 45,
                   [10, 0x1F3AF] @ lit '' Enhance Query Node'',
                   lit ''   Original query: '' @ [39] @ lit ''How to build AI agents?'' @ [39]]\<rparr>) \<and>
   console (run_tests llm_scripted ddgs_two [lit ''test'', lit ''How to build AI agents?'']
     \<lparr>world = [Inr (lit ''test explained''), Inr (lit ''Summary text''),
                Inl (Raised ''ConnectionError'' (lit ''refused''))],
       console = []\<rparr>) =
     [testing_line (lit ''test''), replicate 40 45,
      [10, 0x1F3AF] @ lit '' Enhance Query Node'',
      lit ''   Original query: '' @ [39] @ lit ''test'' @ [39],
      lit ''   Enhanced query: '' @ [39] @ lit ''test explained'' @ [39],
      [10, 0x1F986] @ lit '' Search Tool Node (DuckDuckGo)'',
      lit ''   Searching for: '' @ [39] @ lit ''test explained'' @ [39],
      lit ''   '' @ [0x2192] @ lit '' Found result 1: A...'',
      lit ''   '' @ [0x2192] @ lit '' Found result 2: C...'',
      [10, 0x1F4DD] @ lit '' Summarize Node'',
      lit ''   '' @ [0x2192] @ lit '' Generated summary (12 chars)'',
      [10, 0x1F4E4] @ lit '' Format Output Node'',
      format_output
        \<lparr>query = lit ''test'', enhanced_query = lit ''test explained'',
          search_results = [lit ''1. A: B'', lit ''2. C: D''],
          summary = lit ''Summary text''\<rparr>,
      completed_line,
      testing_line (lit ''How to build AI agents?''), replicate 40 45,
      [10, 0x1F3AF] @ lit '' Enhance Query Node'',
      lit ''   Original query: '' @ [39] @ lit ''How to build AI agents?'' @ [39],
      error_line (Raised ''ConnectionError'' (lit ''refused''))] \<and>
   filter is_driver_line
     (console (run_tests llm_scripted ddgs_two test_queries
        \<lparr>world = [Inr (lit ''LangGraph uses''), Inr (lit ''Summary one''),
                   Inl (Raised ''ConnectionError'' (lit ''refused'')),
                   Inr (lit ''search API''), Inr (lit ''Summary three'')],
          console = []\<rparr>)) =
     [testing_line (lit ''What is LangGraph used for?''), completed_line,
      testing_line (lit ''How to build AI agents?''),
      error_line (Raised ''ConnectionError'' (lit ''refused'')),
      testing_line (lit ''DuckDuckGo search API''), completed_line]"
proof -
  let ?e = "Raised ''ConnectionError'' (lit ''refused'')"
  let ?q1 = "lit ''test''"
  let ?q2 = "lit ''How to build AI agents?''"
  let ?final = "\<lparr>query = lit ''test'', enhanced_query = lit ''test explained'',
                 search_results = [lit ''1. A: B'', lit ''2. C: D''],
                 summary = lit ''Summary text''\<rparr>"
  let ?ioA = "\<lparr>world = [Inr (lit ''test explained''), Inr (lit ''Summary text''), Inl ?e],
               console = []\<rparr>"
  let ?run1 = "[testing_line ?q1, replicate 40 45,
           [10, 0x1F3AF] @ lit '' Enhance Query Node'',
           lit ''   Original query: '' @ [39] @ lit ''test'' @ [39],
           lit ''   Enhanced query: '' @ [39] @ lit ''test explained'' @ [39],
           [10, 0x1F986] @ lit '' Search Tool Node (DuckDuckGo)'',
           lit ''   Searching for: '' @ [39] @ lit ''test explained'' @ [39],
           lit ''   '' @ [0x2192] @ lit '' Found result 1: A...'',
           lit ''   '' @ [0x2192] @ lit '' Found result 2: C...'',
           [10, 0x1F4DD] @ lit '' Summarize Node'',
           lit ''   '' @ [0x2192] @ lit '' Generated summary (12 chars)'',
           [10, 0x1F4E4] @ lit '' Format Output Node'',
           format_output ?final]"
  let ?io3A = "\<lparr>world = [Inl ?e], console = ?run1\<rparr> :: (exn + str) list io"
  have run1: "app_invoke llm_scripted ddgs_two (initial_state ?q1)
                (py_print (replicate 40 45) (py_print (testing_line ?q1) ?ioA)) = (Inr ?final, ?io3A)"
    by (simp add: app_invoke_def run_node_def enhance_query_node_def
        search_tool_node_def summarize_node_def format_output_node_def Let_def py_print_def
        llm_scripted_def ddgs_two_def initial_state_def merge_def no_update_def whole_state_def
        py_or_def strip_def py_isspace_def dict_get_def str_nat.simps
        testing_line_def format_output_def lit_def)
  have fail: "app_invoke llm_scripted ddgs_two (initial_state ?q2)
                (py_print (replicate 40 45) (py_print (testing_line ?q2) io)) =
              (Inl ?e, \<lparr>world = [], console = console io @
                 [testing_line ?q2, replicate 40 45,
                  [10, 0x1F3AF] @ lit '' Enhance Query Node'',
                  lit ''   Original query: '' @ [39] @ ?q2 @ [39]]\<rparr>)"
    if "world io = [Inl ?e]" for io :: "(exn + str) list io"
    using that
    by (simp add: app_invoke_def run_node_def enhance_query_node_def Let_def py_print_def
          llm_scripted_def initial_state_def)
  note fail1 = fail [of "\<lparr>world = [Inl ?e], console = [lit ''earlier output'']\<rparr>"]
  note fail2 = fail [of "py_print completed_line ?io3A"]
  have step1: "run_tests llm_scripted ddgs_two [?q1, ?q2] ?ioA =
               run_tests llm_scripted ddgs_two [?q2] (py_print completed_line ?io3A)"
    using run1
      driver_processes_every_query
        [of "[?q2]" llm_scripted ddgs_two ?ioA ?q1 ?e ?io3A ?final]
    by simp
  have step2: "run_tests llm_scripted ddgs_two [?q2] (py_print completed_line ?io3A) =
               run_tests llm_scripted ddgs_two []
                 (py_print (error_line ?e)
                    \<lparr>world = [], console = console (py_print completed_line ?io3A) @
                       [testing_line ?q2, replicate 40 45,
                        [10, 0x1F3AF] @ lit '' Enhance Query Node'',
                        lit ''   Original query: '' @ [39] @ ?q2 @ [39]]\<rparr>)"
    using fail2
      driver_processes_every_query
        [of "[]" llm_scripted ddgs_two "py_print completed_line ?io3A" ?q2 ?e
            "\<lparr>world = [], console = console (py_print completed_line ?io3A) @
               [testing_line ?q2, replicate 40 45,
                [10, 0x1F3AF] @ lit '' Enhance Query Node'',
                lit ''   Original query: '' @ [39] @ ?q2 @ [39]]\<rparr>"]
    by simp
  note step1
  also note step2
  also have "run_tests llm_scripted ddgs_two []
                 (py_print (error_line ?e)
                    \<lparr>world = [], console = console (py_print completed_line ?io3A) @
                       [testing_line ?q2, replicate 40 45,
                        [10, 0x1F3AF] @ lit '' Enhance Query Node'',
                        lit ''   Original query: '' @ [39] @ ?q2 @ [39]]\<rparr>) =
               py_print (error_line ?e)
                 \<lparr>world = [], console = console (py_print completed_line ?io3A) @
                    [testing_line ?q2, replicate 40 45,
                     [10, 0x1F3AF] @ lit '' Enhance Query Node'',
                     lit ''   Original query: '' @ [39] @ ?q2 @ [39]]\<rparr>"
    by (rule run_tests.simps(1))
  finally have total: "run_tests llm_scripted ddgs_two [?q1, ?q2] ?ioA =
               py_print (error_line ?e)
                 \<lparr>world = [], console = console (py_print completed_line ?io3A) @
                    [testing_line ?q2, replicate 40 45,
                     [10, 0x1F3AF] @ lit '' Enhance Query Node'',
                     lit ''   Original query: '' @ [39] @ ?q2 @ [39]]\<rparr>" .
  show ?thesis
    unfolding total batch_scenario using run1 fail1 by (simp add: py_print_def)
qed

text \<open>
  The end-to-end scenario: query \<open>test\<close>, enhancement \<open>test explained\<close>, two results
  and the summary \<open>Summary text\<close>.
\<close>

lemma end_to_end_scenario:
  "app_invoke llm_scripted ddgs_two (initial_state (lit ''test''))
     \<lparr>world = [Inr (lit ''test explained''), Inr (lit ''Summary text'')], console = []\<rparr> =
   (Inr \<lparr>query = lit ''test'', enhanced_query = lit ''test explained'',
         search_results = [lit ''1. A: B'', lit ''2. C: D''], summary = lit ''Summary text''\<rparr>,
    \<lparr>world = [],
      console =
        [[10, 0x1F3AF] @ lit '' Enhance Query Node'',
         lit ''   Original query: '' @ [39] @ lit ''test'' @ [39],
         lit ''   Enhanced query: '' @ [39] @ lit ''test explained'' @ [39],
         [10, 0x1F986] @ lit '' Search Tool Node (DuckDuckGo)'',
         lit ''   Searching for: '' @ [39] @ lit ''test explained'' @ [39],
         lit ''   '' @ [0x2192] @ lit '' Found result 1: A...'',
         lit ''   '' @ [0x2192] @ lit '' Found result 2: C...'',
         [10, 0x1F4DD] @ lit '' Summarize Node'',
         lit ''   '' @ [0x2192] @ lit '' Generated summary (12 chars)'',
         [10, 0x1F4E4] @ lit '' Format Output Node'',
         [10] @ replicate 50 61 @ [10] @
         [0x1F50D] @ lit '' SEARCH RESULTS'' @ [10] @
         replicate 50 61 @ [10] @
         lit ''Query: test'' @ [10] @
         lit ''Enhanced: test explained'' @ [10] @ [10] @
         lit ''Results Found: 2'' @ [10] @ [10] @
         lit ''Summary:'' @ [10] @
         lit ''Summary text'' @ [10] @
         replicate 50 61 @ [10]]\<rparr>)"
  by (simp add: app_invoke_def run_node_def enhance_query_node_def
        search_tool_node_def summarize_node_def format_output_node_def Let_def py_print_def
        llm_scripted_def ddgs_two_def initial_state_def merge_def no_update_def whole_state_def
        py_or_def strip_def py_isspace_def format_output_def dict_get_def str_nat.simps lit_def)

end
